theory Spec2Isabelle
  imports Main "HOL-Library.Word" "HOL-Library.Sublist"
begin

section \<open>Values exchanged by the Spreadsheet File node, version 2\<close>

text \<open>
  The node is one method, \<open>SpreadsheetFileV2.execute\<close>. It reads its parameters and its
  input through the execution functions it is bound to (\<open>this\<close>), and it calls three
  imported modules: the CSV parser, the spreadsheet library and the node utilities.
  None of these is computed by the method, so the model takes them as two records of
  functions, one for \<open>this\<close> and one for the imports, and every call that can throw
  returns a sum whose left side is the error thrown.

  JavaScript numbers are IEEE doubles. The method never computes on a cell value, it
  only passes it on, so a number is carried as the 64 bits of its double.
\<close>

type_synonym js_number = "64 word"

text \<open>
  A JSON value. An object is the list of its own properties in the order
  \<open>Object.entries\<close> enumerates them; its keys are pairwise distinct.
\<close>

datatype json =
    JNull
  | JBool bool
  | JNumber js_number
  | JString string
  | JArray "json list"
  | JObject "(string \<times> json) list"

text \<open>
  What a \<open>catch\<close> clause receives: an error thrown by a helper or a library, with the
  text of its \<open>message\<close> property, or a \<open>NodeOperationError\<close> built by the method.
  \<open>NodeOperationError\<close> is the error class of the workflow package, which is not among
  the sources, so the model keeps only what the method hands its constructor: a message
  text (lines 122 and 134) or the error caught (line 204), and the index of the item
  (\<open>{ itemIndex: i }\<close>). What the class makes of these as its own \<open>message\<close> is a
  parameter of the model, \<open>node_error_message\<close> below.
\<close>

datatype js_error =
    Error string
  | NodeOperationError cause nat
and cause =
    Text string
  | Caught js_error

record IBinaryData =
  data :: string
  mimeType :: string
  fileExtension :: "string option"
  id_ref :: "string option"

datatype IPairedItemData = IPairedItemData (item: nat)

datatype paired =
    Single IPairedItemData
  | Multiple "IPairedItemData list"

record INodeExecutionData =
  json :: json
  binary :: "(string \<times> IBinaryData) list option"
  pairedItem :: "paired option"

text \<open>
  The \<open>options\<close> collection of the node. Every key may be absent (\<open>undefined\<close>),
  which is \<open>None\<close>.
\<close>

record options =
  delimiter :: "string option"
  fromLine :: "int option"
  enableBOM :: "bool option"
  maxRowCount :: "int option"
  headerRow :: "bool option"
  includeEmptyCells :: "bool option"
  sheetName :: "string option"
  range_opt :: "string option"
  rawData :: "bool option"
  readAsString :: "bool option"

text \<open>The object literal handed to \<open>createCSVParser\<close> (lines 75 to 89), its callback apart.\<close>

record csv_parser_options =
  csv_delimiter :: "string option"
  csv_fromLine :: "int option"
  bom :: "bool option"
  to :: "int option"
  columns :: bool

text \<open>
  A record as the CSV parser hands it to \<open>onRecord\<close>: an object keyed by the header
  line when \<open>columns\<close> is true, an array of cells otherwise. Cells are strings.
\<close>

datatype csv_record =
    Keyed "(string \<times> string) list"
  | Positional "string list"

text \<open>
  Where the parser's text comes from: \<open>parser.write(binaryData.data, BINARY_ENCODING)\<close>
  for a payload held in memory, the binary stream for a payload held in a store.
\<close>

datatype csv_input =
    Written string
  | Piped string

text \<open>The spreadsheet library's values: parsing options, workbook, conversion options.\<close>

record ParsingOptions =
  raw :: "bool option"
  type_opt :: "string option"

text \<open>A sheet is a grid of cells; the method hands it on without looking into it.\<close>

type_synonym WorkSheet = "json list list"

record WorkBook =
  SheetNames :: "string list"
  Sheets :: "(string \<times> WorkSheet) list"

datatype xlsx_data =
    Buffer string
  | BufferToString string

datatype sheet_range =
    RangeExpr string
  | RangeRow "int option"

record Sheet2JSONOpts =
  range_of :: "sheet_range option"
  defval :: "string option"
  header :: "nat option"

text \<open>
  The execution functions (\<open>this\<close>). \<open>getNodeParameter\<close> is one accessor per
  parameter name the method reads, each of which may throw; the fallback \<open>{}\<close> of
  \<open>fileFormat\<close> (line 59) equals neither string the method compares it with, and is any
  other string here. \<open>getBinaryStream\<close> gives the text the stream delivers.
\<close>

record IExecuteFunctions =
  getInputData :: "INodeExecutionData list"
  getNodeParameter_operation :: "js_error + string"
  getNodeParameter_options :: "nat \<Rightarrow> js_error + options"
  getNodeParameter_fileFormat :: "nat \<Rightarrow> js_error + string"
  getNodeParameter_binaryPropertyName :: "nat \<Rightarrow> js_error + string"
  assertBinaryData :: "nat \<Rightarrow> string \<Rightarrow> js_error + IBinaryData"
  getBinaryStream :: "string \<Rightarrow> js_error + string"
  getBinaryPath :: "string \<Rightarrow> js_error + string"
  continueOnFail :: bool

text \<open>
  The imported modules. \<open>csv_records\<close> is the tokenising of the CSV parser: the
  records a text holds under the given delimiter, starting line, byte-order-mark and
  header settings, up to its first malformed line, and that line's error if there is
  one. \<open>node_error_message\<close> is the \<open>message\<close> property of a \<open>NodeOperationError\<close>
  built from the given text or error and item index; the class may rewrite the text it
  is given. \<open>isNaN\<close> and \<open>parseInt\<close> are the JavaScript built-ins on the text of the
  \<open>range\<close> option (\<open>parseInt\<close> gives \<open>None\<close> for \<open>NaN\<close>).
\<close>

record modules =
  csv_records :: "csv_parser_options \<Rightarrow> csv_input \<Rightarrow> csv_record list \<times> js_error option"
  xlsxReadFile :: "string \<Rightarrow> ParsingOptions \<Rightarrow> js_error + WorkBook"
  xlsxRead :: "xlsx_data \<Rightarrow> ParsingOptions \<Rightarrow> js_error + WorkBook"
  sheet_to_json :: "WorkSheet option \<Rightarrow> Sheet2JSONOpts \<Rightarrow> js_error + json list"
  convertJsonToSpreadsheetBinary ::
    "INodeExecutionData list \<Rightarrow> string \<Rightarrow> options \<Rightarrow> js_error + IBinaryData"
  node_error_message :: "cause \<Rightarrow> nat \<Rightarrow> string"
  isNaN :: "string \<Rightarrow> bool"
  parseInt :: "string \<Rightarrow> int option"

section \<open>JavaScript notions the method relies on\<close>

text \<open>\<open>error.message\<close>, as the \<open>catch\<close> clauses of lines 196 and 238 read it.\<close>

definition error_message :: "modules \<Rightarrow> js_error \<Rightarrow> string" where
  "error_message lib error =
     (case error of
        Error text \<Rightarrow> text
      | NodeOperationError given i \<Rightarrow> node_error_message lib given i)"

text \<open>Truthiness of an optional boolean and of an optional string.\<close>

definition truthy_bool :: "bool option \<Rightarrow> bool" where
  "truthy_bool b = (b = Some True)"

definition truthy_string :: "string option \<Rightarrow> bool" where
  "truthy_string s = (case s of None \<Rightarrow> False | Some t \<Rightarrow> t \<noteq> [])"

text \<open>The decimal text of an array index, the key \<open>Object.entries\<close> gives a cell.\<close>

definition digits :: string where
  "digits = ''0123456789''"

function string_of_nat :: "nat \<Rightarrow> string" where
  "string_of_nat n =
     (if n < 10 then [digits ! n] else string_of_nat (n div 10) @ [digits ! (n mod 10)])"
  by pat_completeness auto
termination
  by (relation "measure id") auto

declare string_of_nat.simps [simp del]

text \<open>
  \<open>Object.entries\<close> of a parser record: the properties of an object, the cells of an
  array under their indices. \<open>Object.fromEntries\<close> of entries with distinct keys is the
  object with these properties.
\<close>

fun Object_entries :: "csv_record \<Rightarrow> (string \<times> string) list" where
  "Object_entries (Keyed properties) = properties"
| "Object_entries (Positional cells) = zip (map string_of_nat [0..<length cells]) cells"

definition Object_fromEntries :: "(string \<times> string) list \<Rightarrow> json" where
  "Object_fromEntries entries = JObject (map (\<lambda>(key, v). (key, JString v)) entries)"

fun json_of_record :: "csv_record \<Rightarrow> json" where
  "json_of_record (Keyed properties) = Object_fromEntries properties"
| "json_of_record (Positional cells) = JArray (map JString cells)"

section \<open>Reading: format detection (lines 65 to 73)\<close>

definition detect_fileFormat :: "string \<Rightarrow> IBinaryData \<Rightarrow> string" where
  "detect_fileFormat fileFormat binaryData =
     (if fileFormat = ''autodetect'' \<and>
         (mimeType binaryData = ''text/csv'' \<or>
          (mimeType binaryData = ''text/plain'' \<and> fileExtension binaryData = Some ''csv''))
      then ''csv'' else fileFormat)"

section \<open>Reading: the CSV path (lines 74 to 104)\<close>

text \<open>
  The callback of lines 81 to 88: the value it assigns to \<open>record\<close> (lines 82 to 86),
  and the callback itself on the list \<open>rows\<close> it pushes to (line 87).
\<close>

definition pushed_record :: "options \<Rightarrow> csv_record \<Rightarrow> json" where
  "pushed_record options record =
     (if \<not> truthy_bool (includeEmptyCells options)
      then Object_fromEntries (filter (\<lambda>(key, v). v \<noteq> '''') (Object_entries record))
      else json_of_record record)"

definition onRecord :: "options \<Rightarrow> csv_record \<Rightarrow> json list \<Rightarrow> json list" where
  "onRecord options record rows = rows @ [pushed_record options record]"

text \<open>
  Modelled from the spec: the CSV parsing engine (the package behind
  \<open>createCSVParser\<close>) is not among the sources. Its tokenising is the parameter
  \<open>csv_records\<close>; what it does with the row cap follows the spec's words: "If
  \<open>maxRowCount\<close> > -1, stops after that many rows". So a parser capped at \<open>n\<close> ends
  after the \<open>n\<close>-th record, before any later line is read; otherwise it ends with the
  text, or stops with an error at the first malformed line.
\<close>

fun stop_after ::
  "int option \<Rightarrow> csv_record list \<times> js_error option \<Rightarrow> csv_record list \<times> js_error option" where
  "stop_after (Some n) (records, failure) =
     (if nat n \<le> length records then (take (nat n) records, None) else (records, failure))"
| "stop_after None (records, failure) = (records, failure)"

text \<open>
  Modelled from the spec: the run of a parser of that package on a text. The records it
  finds, cut by \<open>stop_after\<close>, are handed to the callback one by one in the order of the
  text; the run gives the list the callback has pushed to, and the error the parser
  emits, if it stopped with one.
\<close>

definition createCSVParser ::
  "modules \<Rightarrow> csv_parser_options \<Rightarrow> (csv_record \<Rightarrow> json list \<Rightarrow> json list) \<Rightarrow>
   csv_input \<Rightarrow> json list \<Rightarrow> json list \<times> js_error option" where
  "createCSVParser lib parser_options on_record input rows =
     (case stop_after (to parser_options) (csv_records lib (parser_options\<lparr>to := None\<rparr>) input) of
        (records, failure) \<Rightarrow>
          (foldl (\<lambda>rows record. on_record record rows) rows records, failure))"

text \<open>Lines 75 to 80: the options of the parser.\<close>

definition parser_options :: "options \<Rightarrow> csv_parser_options" where
  "parser_options options =
     (let maxRowCount = maxRowCount options
      in \<lparr>csv_delimiter = delimiter options,
          csv_fromLine = fromLine options,
          bom = enableBOM options,
          to = (case maxRowCount of
                  Some n \<Rightarrow> if n > -1 then Some n else None
                | None \<Rightarrow> None),
          columns = (headerRow options \<noteq> Some False)\<rparr>)"

text \<open>Lines 90 to 104: the text the parser is given.\<close>

definition parser_input :: "IExecuteFunctions \<Rightarrow> IBinaryData \<Rightarrow> js_error + csv_input" where
  "parser_input this binaryData =
     (if truthy_string (id_ref binaryData)
      then (case getBinaryStream this (the (id_ref binaryData)) of
              Inl e \<Rightarrow> Inl e
            | Inr stream \<Rightarrow> Inr (Piped stream))
      else Inr (Written (data binaryData)))"

text \<open>
  Lines 74 to 104 around the parser. Fed from a stream, the method listens for the
  parser's error and rejects with it (line 93), so the \<open>await\<close> throws inside the
  \<open>try\<close>. Fed from memory (lines 102 and 103), it listens for no error and throws
  nothing: \<open>rows\<close> holds what the callback pushed before the parser stopped.
\<close>

definition read_csv ::
  "modules \<Rightarrow> IExecuteFunctions \<Rightarrow> options \<Rightarrow> IBinaryData \<Rightarrow> js_error + json list" where
  "read_csv lib this options binaryData =
     (let rows = [];
          parser = createCSVParser lib (parser_options options) (onRecord options)
      in case parser_input this binaryData of
           Inl e \<Rightarrow> Inl e
         | Inr (Piped stream) \<Rightarrow>
             (case parser (Piped stream) rows of
                (rows, Some e) \<Rightarrow> Inl e
              | (rows, None) \<Rightarrow> Inr rows)
         | Inr (Written text) \<Rightarrow>
             (case parser (Written text) rows of
                (rows, failure) \<Rightarrow> Inr rows))"

section \<open>Reading: the spreadsheet path (lines 105 to 167)\<close>

definition load_workbook ::
  "modules \<Rightarrow> IExecuteFunctions \<Rightarrow> options \<Rightarrow> IBinaryData \<Rightarrow> js_error + WorkBook" where
  "load_workbook lib this options binaryData =
     (let xlsxOptions =
            \<lparr>raw = rawData options,
             type_opt = (if truthy_bool (readAsString options) then Some ''string'' else None)\<rparr>
      in if truthy_string (id_ref binaryData)
         then (case getBinaryPath this (the (id_ref binaryData)) of
                 Inl e \<Rightarrow> Inl e
               | Inr binaryPath \<Rightarrow> xlsxReadFile lib binaryPath xlsxOptions)
         else xlsxRead lib
                (if truthy_bool (readAsString options)
                 then BufferToString (data binaryData) else Buffer (data binaryData))
                xlsxOptions)"

text \<open>Lines 121 to 141: the name of the sheet to convert, or the error thrown.\<close>

definition select_sheet :: "WorkBook \<Rightarrow> options \<Rightarrow> nat \<Rightarrow> js_error + string" where
  "select_sheet workbook options i =
     (if length (SheetNames workbook) = 0
      then Inl (NodeOperationError (Text ''Spreadsheet does not have any sheets!'') i)
      else
        (let first_sheet = hd (SheetNames workbook)
         in if truthy_string (sheetName options)
            then (if the (sheetName options) \<notin> set (SheetNames workbook)
                  then Inl (NodeOperationError
                         (Text (''Spreadsheet does not contain sheet called '' @ [CHR 0x22] @
                                the (sheetName options) @ [CHR 0x22] @ ''!'')) i)
                  else Inr (the (sheetName options)))
            else Inr first_sheet))"

text \<open>Lines 144 to 159.\<close>

definition sheetToJsonOptions :: "modules \<Rightarrow> options \<Rightarrow> Sheet2JSONOpts" where
  "sheetToJsonOptions lib options =
     \<lparr>range_of =
        (if truthy_string (range_opt options)
         then (if isNaN lib (the (range_opt options))
               then Some (RangeExpr (the (range_opt options)))
               else Some (RangeRow (parseInt lib (the (range_opt options)))))
         else None),
      defval = (if truthy_bool (includeEmptyCells options) then Some '''' else None),
      header = (if headerRow options = Some False then Some 1 else None)\<rparr>"

definition read_spreadsheet ::
  "modules \<Rightarrow> IExecuteFunctions \<Rightarrow> nat \<Rightarrow> options \<Rightarrow> IBinaryData \<Rightarrow> js_error + json list" where
  "read_spreadsheet lib this i options binaryData =
     (case load_workbook lib this options binaryData of
        Inl e \<Rightarrow> Inl e
      | Inr workbook \<Rightarrow>
          (case select_sheet workbook options i of
             Inl e \<Rightarrow> Inl e
           | Inr selected \<Rightarrow>
               sheet_to_json lib (map_of (Sheets workbook) selected)
                 (sheetToJsonOptions lib options)))"

section \<open>Reading: rows to items, and the loop over the input (lines 56 to 208)\<close>

text \<open>Lines 170 to 191: the items pushed for the rows of input item \<open>i\<close>.\<close>

definition rows_to_items :: "options \<Rightarrow> nat \<Rightarrow> json list \<Rightarrow> INodeExecutionData list" where
  "rows_to_items options i rows =
     (if headerRow options = Some False
      then map (\<lambda>rowData.
             \<lparr>json = JObject [(''row'', rowData)], binary = None,
              pairedItem = Some (Single (IPairedItemData i))\<rparr>) rows
      else map (\<lambda>rowData.
             \<lparr>json = rowData, binary = None,
              pairedItem = Some (Single (IPairedItemData i))\<rparr>) rows)"

text \<open>
  The body of the \<open>try\<close> block for item \<open>i\<close> (lines 58 to 191): the error it throws,
  or the items it pushes. Nothing is pushed before the last statement that can throw, so
  an item that fails has pushed nothing.
\<close>

definition process_item ::
  "modules \<Rightarrow> IExecuteFunctions \<Rightarrow> nat \<Rightarrow> js_error + INodeExecutionData list" where
  "process_item lib this i =
     (case getNodeParameter_options this i of
        Inl e \<Rightarrow> Inl e
      | Inr options \<Rightarrow>
     (case getNodeParameter_fileFormat this i of
        Inl e \<Rightarrow> Inl e
      | Inr fileFormat \<Rightarrow>
     (case getNodeParameter_binaryPropertyName this i of
        Inl e \<Rightarrow> Inl e
      | Inr binaryPropertyName \<Rightarrow>
     (case assertBinaryData this i binaryPropertyName of
        Inl e \<Rightarrow> Inl e
      | Inr binaryData \<Rightarrow>
          (let fileFormat = detect_fileFormat fileFormat binaryData
           in if fileFormat = ''csv''
              then (case read_csv lib this options binaryData of
                      Inl e \<Rightarrow> Inl e
                    | Inr rows \<Rightarrow> Inr (rows_to_items options i rows))
              else (case read_spreadsheet lib this i options binaryData of
                      Inl e \<Rightarrow> Inl e
                    | Inr rows \<Rightarrow>
                        if length rows = 0 then Inr []
                        else Inr (rows_to_items options i rows)))))))"

text \<open>The record pushed by the \<open>catch\<close> clause of lines 192 to 203.\<close>

definition error_item :: "modules \<Rightarrow> js_error \<Rightarrow> paired \<Rightarrow> INodeExecutionData" where
  "error_item lib error paired_with =
     \<lparr>json = JObject [(''error'', JString (error_message lib error))], binary = None,
      pairedItem = Some paired_with\<rparr>"

text \<open>
  The loop of line 56, from index \<open>i\<close> on, with the items pushed so far. It ends with
  \<open>newItems\<close>, or with the error thrown at line 204.
\<close>

function fromFile ::
  "modules \<Rightarrow> IExecuteFunctions \<Rightarrow> nat \<Rightarrow> INodeExecutionData list \<Rightarrow>
   js_error + INodeExecutionData list" where
  "fromFile lib this i newItems =
     (if i < length (getInputData this)
      then (case process_item lib this i of
              Inr pushed \<Rightarrow> fromFile lib this (i + 1) (newItems @ pushed)
            | Inl error \<Rightarrow>
                if continueOnFail this
                then fromFile lib this (i + 1)
                       (newItems @ [error_item lib error (Single (IPairedItemData i))])
                else Inl (NodeOperationError (Caught error) i))
      else Inr newItems)"
  by pat_completeness auto
termination
  by (relation "measure (\<lambda>(lib, this, i, newItems). length (getInputData this) - i)") auto

declare fromFile.simps [simp del]

text \<open>
  What one turn of the loop pushes for item \<open>j\<close> when the node continues on failure:
  the items of the \<open>try\<close> block, or the one record of the \<open>catch\<close> clause.
\<close>

definition pushed_for :: "modules \<Rightarrow> IExecuteFunctions \<Rightarrow> nat \<Rightarrow> INodeExecutionData list" where
  "pushed_for lib this j =
     (case process_item lib this j of
        Inr pushed \<Rightarrow> pushed
      | Inl error \<Rightarrow> [error_item lib error (Single (IPairedItemData j))])"

section \<open>Writing (lines 211 to 246), and the method\<close>

text \<open>
  Modelled from the spec: \<open>generatePairedItemData\<close> is a node utility that is not among
  the sources. The spec has the single output item tagged "with a paired-item reference
  spanning the whole input batch (not a single index)": one reference per index of the
  batch.
\<close>

definition generatePairedItemData :: "nat \<Rightarrow> IPairedItemData list" where
  "generatePairedItemData len = map IPairedItemData [0..<len]"

text \<open>
  The body of the \<open>try\<close> block of lines 213 to 233: the error it throws, or the item
  it pushes.
\<close>

definition serialize_items ::
  "modules \<Rightarrow> IExecuteFunctions \<Rightarrow> IPairedItemData list \<Rightarrow> js_error + INodeExecutionData" where
  "serialize_items lib this paired_items =
     (let items = getInputData this
      in case getNodeParameter_binaryPropertyName this 0 of
           Inl e \<Rightarrow> Inl e
         | Inr binaryPropertyName \<Rightarrow>
        (case getNodeParameter_fileFormat this 0 of
           Inl e \<Rightarrow> Inl e
         | Inr fileFormat \<Rightarrow>
        (case getNodeParameter_options this 0 of
           Inl e \<Rightarrow> Inl e
         | Inr options \<Rightarrow>
        (case convertJsonToSpreadsheetBinary lib items fileFormat options of
           Inl e \<Rightarrow> Inl e
         | Inr binaryData \<Rightarrow>
             Inr \<lparr>json = JObject [],
                  binary = Some [(binaryPropertyName, binaryData)],
                  pairedItem = Some (Multiple paired_items)\<rparr>))))"

definition toFile ::
  "modules \<Rightarrow> IExecuteFunctions \<Rightarrow> INodeExecutionData list \<Rightarrow>
   js_error + INodeExecutionData list" where
  "toFile lib this newItems =
     (let items = getInputData this;
          paired_items = generatePairedItemData (length items)
      in case serialize_items lib this paired_items of
           Inr newItem \<Rightarrow> Inr (newItems @ [newItem])
         | Inl error \<Rightarrow>
             if continueOnFail this
             then Inr (newItems @ [error_item lib error (Multiple paired_items)])
             else Inl error)"

definition execute ::
  "modules \<Rightarrow> IExecuteFunctions \<Rightarrow> js_error + INodeExecutionData list list" where
  "execute lib this =
     (case getNodeParameter_operation this of
        Inl e \<Rightarrow> Inl e
      | Inr operation \<Rightarrow>
          (let newItems = []
           in if operation = ''fromFile''
              then (case fromFile lib this 0 newItems of
                      Inl e \<Rightarrow> Inl e
                    | Inr newItems \<Rightarrow> Inr [newItems])
              else if operation = ''toFile''
              then (case toFile lib this newItems of
                      Inl e \<Rightarrow> Inl e
                    | Inr newItems \<Rightarrow> Inr [newItems])
              else Inr [newItems]))"

section \<open>Example inputs\<close>

text \<open>
  Concrete inputs at which the theorems below are instantiated: the empty
  \<open>options\<close> collection, a payload held in memory, execution functions that serve the
  same payload and file format to every item and the \<open>k\<close>-th options to item \<open>k\<close>, and
  modules whose CSV parser finds the given records, whose spreadsheet reader finds the
  given workbook, each cell grid converting to one array per line, whose serializer
  knows every format but \<open>autodetect\<close>, and whose error class keeps the text it is
  given, or the message of the error it wraps.
\<close>

fun kept_message :: "js_error \<Rightarrow> string"
  and kept_text :: "cause \<Rightarrow> string" where
  "kept_message (Error text) = text"
| "kept_message (NodeOperationError given i) = kept_text given"
| "kept_text (Text text) = text"
| "kept_text (Caught error) = kept_message error"

definition no_options :: options where
  "no_options =
     \<lparr>delimiter = None, fromLine = None, enableBOM = None, maxRowCount = None,
      headerRow = None, includeEmptyCells = None, sheetName = None, range_opt = None,
      rawData = None, readAsString = None\<rparr>"

definition example_payload :: "string \<Rightarrow> IBinaryData" where
  "example_payload mime =
     \<lparr>data = ''AAAA'', mimeType = mime, fileExtension = None, id_ref = None\<rparr>"

definition example_this ::
  "string \<Rightarrow> string \<Rightarrow> bool \<Rightarrow> IBinaryData \<Rightarrow> options list \<Rightarrow> IExecuteFunctions" where
  "example_this operation fileFormat continue binaryData per_item =
     \<lparr>getInputData =
        map (\<lambda>options. \<lparr>json = JObject [], binary = None, pairedItem = None\<rparr>) per_item,
      getNodeParameter_operation = Inr operation,
      getNodeParameter_options =
        (\<lambda>i. if i < length per_item then Inr (per_item ! i) else Inr no_options),
      getNodeParameter_fileFormat = (\<lambda>i. Inr fileFormat),
      getNodeParameter_binaryPropertyName = (\<lambda>i. Inr ''data''),
      assertBinaryData =
        (\<lambda>i name. if name = ''data'' then Inr binaryData
                  else Inl (Error ''no binary data'')),
      getBinaryStream = (\<lambda>ref. Inl (Error ''no binary store'')),
      getBinaryPath = (\<lambda>ref. Inl (Error ''no binary store'')),
      continueOnFail = continue\<rparr>"

definition example_modules :: "csv_record list \<Rightarrow> WorkBook \<Rightarrow> modules" where
  "example_modules records workbook =
     \<lparr>csv_records = (\<lambda>parser_options input. (records, None)),
      xlsxReadFile = (\<lambda>path xlsxOptions. Inr workbook),
      xlsxRead = (\<lambda>buffer xlsxOptions. Inr workbook),
      sheet_to_json =
        (\<lambda>sheet opts. case sheet of None \<Rightarrow> Inr [] | Some grid \<Rightarrow> Inr (map JArray grid)),
      convertJsonToSpreadsheetBinary =
        (\<lambda>items fileFormat options.
           if fileFormat = ''autodetect'' then Inl (Error ''unknown format'')
           else Inr \<lparr>data = ''UEsD'', mimeType = ''application/octet-stream'',
                     fileExtension = Some fileFormat, id_ref = None\<rparr>),
      node_error_message = (\<lambda>given i. kept_text given),
      isNaN = (\<lambda>text. True),
      parseInt = (\<lambda>text. None)\<rparr>"

definition two_sheets :: WorkBook where
  "two_sheets =
     \<lparr>SheetNames = [''Sheet1'', ''Data''],
      Sheets = [(''Sheet1'', [[JString ''a'', JString ''b'']]),
                (''Data'', [[JString ''x''], [JString ''y'']])]\<rparr>"

definition no_sheets :: WorkBook where
  "no_sheets = \<lparr>SheetNames = [], Sheets = []\<rparr>"

definition blank_sheet :: WorkBook where
  "blank_sheet = \<lparr>SheetNames = [''Sheet1''], Sheets = [(''Sheet1'', [])]\<rparr>"

section \<open>Facts about the loop over the input\<close>

lemma fromFile_done:
  "\<not> i < length (getInputData this) \<Longrightarrow> fromFile lib this i newItems = Inr newItems"
  by (subst fromFile.simps) simp

lemma fromFile_pushed:
  "i < length (getInputData this) \<Longrightarrow> process_item lib this i = Inr pushed \<Longrightarrow>
   fromFile lib this i newItems = fromFile lib this (Suc i) (newItems @ pushed)"
  by (subst fromFile.simps) simp

lemma fromFile_caught:
  "i < length (getInputData this) \<Longrightarrow> process_item lib this i = Inl e \<Longrightarrow>
   continueOnFail this \<Longrightarrow>
   fromFile lib this i newItems =
     fromFile lib this (Suc i) (newItems @ [error_item lib e (Single (IPairedItemData i))])"
  by (subst fromFile.simps) simp

lemma fromFile_thrown:
  "i < length (getInputData this) \<Longrightarrow> process_item lib this i = Inl e \<Longrightarrow>
   \<not> continueOnFail this \<Longrightarrow>
   fromFile lib this i newItems = Inl (NodeOperationError (Caught e) i)"
  by (subst fromFile.simps) simp

lemma rows_to_items_Nil: "rows_to_items options i [] = []"
  by (simp add: rows_to_items_def)

lemma rows_to_items_paired:
  "x \<in> set (rows_to_items options i rows) \<Longrightarrow> pairedItem x = Some (Single (IPairedItemData i))"
  by (auto simp: rows_to_items_def split: if_splits)

text \<open>
  With \<open>headerRow\<close> false, every row read, from either path, is pushed under the one
  field \<open>row\<close>.
\<close>

lemma rows_to_items_wrapped:
  "headerRow options = Some False \<Longrightarrow> x \<in> set (rows_to_items options i rows) \<Longrightarrow>
   \<exists>rowData \<in> set rows. json x = JObject [(''row'', rowData)]"
  by (auto simp: rows_to_items_def)

text \<open>Once the four reads of lines 58 to 61 have succeeded, the item goes one of two ways.\<close>

lemma process_item_read:
  assumes "getNodeParameter_options this i = Inr options"
    and "getNodeParameter_fileFormat this i = Inr fileFormat"
    and "getNodeParameter_binaryPropertyName this i = Inr name"
    and "assertBinaryData this i name = Inr binaryData"
  shows "process_item lib this i =
           (if detect_fileFormat fileFormat binaryData = ''csv''
            then map_sum id (rows_to_items options i) (read_csv lib this options binaryData)
            else map_sum id (rows_to_items options i)
                   (read_spreadsheet lib this i options binaryData))"
  using assms
  by (auto simp: process_item_def Let_def rows_to_items_Nil split: sum.splits)

text \<open>Every item pushed for input item \<open>i\<close> refers to \<open>i\<close>, and to nothing else.\<close>

lemma process_item_paired:
  assumes "process_item lib this i = Inr pushed" and "x \<in> set pushed"
  shows "pairedItem x = Some (Single (IPairedItemData i))"
  using assms
  by (auto simp: process_item_def Let_def split: sum.splits if_splits dest: rows_to_items_paired)

lemma pushed_for_paired:
  "x \<in> set (pushed_for lib this j) \<Longrightarrow> pairedItem x = Some (Single (IPairedItemData j))"
  by (auto simp: pushed_for_def error_item_def split: sum.splits dest: process_item_paired)

text \<open>
  A node that continues on failure never throws while reading: the loop ends with what
  each item pushed, in the order of the input.
\<close>

lemma fromFile_continue:
  assumes "continueOnFail this"
  shows "fromFile lib this i newItems =
           Inr (newItems @ concat (map (pushed_for lib this) [i..<length (getInputData this)]))"
proof (induction "length (getInputData this) - i" arbitrary: i newItems)
  case 0
  then show ?case by (simp add: fromFile_done)
next
  case (Suc d)
  then have i: "i < length (getInputData this)" and d: "d = length (getInputData this) - Suc i"
    by simp_all
  have step: "fromFile lib this i newItems =
              fromFile lib this (Suc i) (newItems @ pushed_for lib this i)"
    using i assms
    by (cases "process_item lib this i")
       (simp_all add: fromFile_caught fromFile_pushed pushed_for_def)
  show ?case
    using Suc.hyps(1)[OF d] i by (simp add: step upt_conv_Cons)
qed

lemma filter_concat_pushed_for:
  "filter (\<lambda>x. pairedItem x = Some (Single (IPairedItemData j)))
     (concat (map (pushed_for lib this) js)) =
   concat (map (pushed_for lib this) (filter (\<lambda>k. k = j) js))"
proof (induction js)
  case Nil
  then show ?case by simp
next
  case (Cons k js)
  have "filter (\<lambda>x. pairedItem x = Some (Single (IPairedItemData j))) (pushed_for lib this k) =
        (if k = j then pushed_for lib this k else [])"
    by (auto simp: filter_empty_conv dest: pushed_for_paired intro: filter_True)
  with Cons show ?case by simp
qed

lemma filter_eq_upt: "j < n \<Longrightarrow> filter (\<lambda>k. k = j) [0..<n] = [j]"
  by (induction n) (auto simp: less_Suc_eq filter_empty_conv)

text \<open>
  A node that does not continue on failure throws at the first item that fails, from
  wherever the loop stands before it.
\<close>

lemma fromFile_abort:
  assumes "\<not> continueOnFail this" and "i < length (getInputData this)"
    and "process_item lib this i = Inl e"
    and "\<forall>j<i. \<exists>pushed. process_item lib this j = Inr pushed"
    and "k \<le> i"
  shows "fromFile lib this k newItems = Inl (NodeOperationError (Caught e) i)"
  using assms(5)
proof (induction "i - k" arbitrary: k newItems)
  case 0
  then have "k = i" by simp
  then show ?case using assms by (simp add: fromFile_thrown)
next
  case (Suc d)
  then have k: "k < i" and d: "d = i - Suc k" by simp_all
  then obtain pushed where p: "process_item lib this k = Inr pushed" using assms(4) by blast
  have "k < length (getInputData this)" using k assms(2) by simp
  then have "fromFile lib this k newItems = fromFile lib this (Suc k) (newItems @ pushed)"
    using p by (rule fromFile_pushed)
  also have "\<dots> = Inl (NodeOperationError (Caught e) i)"
    using Suc.hyps(1)[OF d] k by simp
  finally show ?case .
qed

lemmas example_defs =
  example_this_def example_modules_def example_payload_def no_options_def
  two_sheets_def no_sheets_def blank_sheet_def

section \<open>The failure policy of the read direction\<close>

text \<open>
  What the \<open>catch\<close> clause of lines 192 to 205 does with what the \<open>try\<close> block throws.
  Let the \<open>try\<close> block of item \<open>i\<close> throw \<open>e\<close>. If the node continues on failure,
  the method returns normally, and the items of its output that refer to \<open>i\<close> are
  exactly one record: its \<open>json\<close> is \<open>{error: e.message}\<close> and its \<open>pairedItem\<close> is
  \<open>{item: i}\<close>; every item of the input, those after \<open>i\<close> included, has in the
  output what its own turn of the loop pushed. If the node does not continue on failure
  and no earlier item has thrown, the method throws the \<open>NodeOperationError\<close> it builds
  from \<open>e\<close> with item index \<open>i\<close>; the hypotheses speak of the items up to \<open>i\<close> only,
  so whatever the later items are, none changes this result.
\<close>

theorem fromFile_failure_policy:
  assumes "getNodeParameter_operation this = Inr ''fromFile''"
    and "i < length (getInputData this)"
    and "process_item lib this i = Inl e"
  shows "(continueOnFail this \<longrightarrow>
            (\<exists>out. execute lib this = Inr [out] \<and>
               filter (\<lambda>x. pairedItem x = Some (Single (IPairedItemData i))) out =
                 [\<lparr>json = JObject [(''error'', JString (error_message lib e))], binary = None,
                   pairedItem = Some (Single (IPairedItemData i))\<rparr>] \<and>
               (\<forall>j<length (getInputData this).
                  filter (\<lambda>x. pairedItem x = Some (Single (IPairedItemData j))) out =
                    pushed_for lib this j))) \<and>
         (\<not> continueOnFail this \<and> (\<forall>j<i. \<exists>pushed. process_item lib this j = Inr pushed) \<longrightarrow>
            execute lib this = Inl (NodeOperationError (Caught e) i))"
proof (intro conjI impI)
  assume c: "continueOnFail this"
  let ?out = "concat (map (pushed_for lib this) [0..<length (getInputData this)])"
  have run: "execute lib this = Inr [?out]"
    using assms(1) fromFile_continue[OF c, of lib 0 "[]"] by (simp add: execute_def)
  have each: "filter (\<lambda>x. pairedItem x = Some (Single (IPairedItemData j))) ?out =
              pushed_for lib this j"
    if "j < length (getInputData this)" for j
    using that by (simp add: filter_concat_pushed_for filter_eq_upt)
  have "pushed_for lib this i =
          [\<lparr>json = JObject [(''error'', JString (error_message lib e))], binary = None,
            pairedItem = Some (Single (IPairedItemData i))\<rparr>]"
    using assms(3) by (simp add: pushed_for_def error_item_def)
  with run each assms(2)
  show "\<exists>out. execute lib this = Inr [out] \<and>
               filter (\<lambda>x. pairedItem x = Some (Single (IPairedItemData i))) out =
                 [\<lparr>json = JObject [(''error'', JString (error_message lib e))], binary = None,
                   pairedItem = Some (Single (IPairedItemData i))\<rparr>] \<and>
               (\<forall>j<length (getInputData this).
                  filter (\<lambda>x. pairedItem x = Some (Single (IPairedItemData j))) out =
                    pushed_for lib this j)"
    by (intro exI[of _ ?out]) simp
next
  assume a: "\<not> continueOnFail this \<and> (\<forall>j<i. \<exists>pushed. process_item lib this j = Inr pushed)"
  then have "fromFile lib this 0 [] = Inl (NodeOperationError (Caught e) i)"
    using assms(2,3) by (intro fromFile_abort) simp_all
  then show "execute lib this = Inl (NodeOperationError (Caught e) i)"
    using assms(1) by (simp add: execute_def)
qed

text \<open>
  Three items, the second of which names a sheet its workbook does not have: continuing,
  the output holds one error record for it; not continuing, the method throws with item
  index 1.
\<close>

theorem fromFile_failure_policy_witness:
  "(\<exists>out.
      execute (example_modules [] two_sheets)
        (example_this ''fromFile'' ''autodetect'' True (example_payload ''application/vnd.ms-excel'')
           [no_options, no_options\<lparr>sheetName := Some ''Missing''\<rparr>, no_options]) = Inr [out] \<and>
      filter (\<lambda>x. pairedItem x = Some (Single (IPairedItemData 1))) out =
        [\<lparr>json = JObject [(''error'', JString
                  (''Spreadsheet does not contain sheet called '' @ [CHR 0x22] @ ''Missing'' @
                   [CHR 0x22] @ ''!''))],
          binary = None, pairedItem = Some (Single (IPairedItemData 1))\<rparr>]) \<and>
   execute (example_modules [] two_sheets)
     (example_this ''fromFile'' ''autodetect'' False (example_payload ''application/vnd.ms-excel'')
        [no_options, no_options\<lparr>sheetName := Some ''Missing''\<rparr>, no_options]) =
     Inl (NodeOperationError
            (Caught (NodeOperationError
               (Text (''Spreadsheet does not contain sheet called '' @ [CHR 0x22] @ ''Missing'' @
                      [CHR 0x22] @ ''!'')) 1)) 1)"
proof -
  let ?lib = "example_modules [] two_sheets"
  let ?per_item = "[no_options, no_options\<lparr>sheetName := Some ''Missing''\<rparr>, no_options]"
  let ?e = "NodeOperationError
              (Text (''Spreadsheet does not contain sheet called '' @ [CHR 0x22] @ ''Missing'' @
                     [CHR 0x22] @ ''!'')) 1"
  have op: "getNodeParameter_operation
              (example_this ''fromFile'' ''autodetect'' c
                 (example_payload ''application/vnd.ms-excel'') ?per_item) = Inr ''fromFile''"
    and len: "1 < length (getInputData
              (example_this ''fromFile'' ''autodetect'' c
                 (example_payload ''application/vnd.ms-excel'') ?per_item))"
    and cont: "continueOnFail
              (example_this ''fromFile'' ''autodetect'' c
                 (example_payload ''application/vnd.ms-excel'') ?per_item) = c" for c
    by (simp_all add: example_this_def)
  have fails: "process_item ?lib
                 (example_this ''fromFile'' ''autodetect'' c
                    (example_payload ''application/vnd.ms-excel'') ?per_item) 1 = Inl ?e" for c
    by (simp add: process_item_def detect_fileFormat_def read_spreadsheet_def load_workbook_def
          select_sheet_def truthy_string_def truthy_bool_def example_defs)
  have before: "\<forall>j<1. \<exists>pushed. process_item ?lib
                 (example_this ''fromFile'' ''autodetect'' False
                    (example_payload ''application/vnd.ms-excel'') ?per_item) j = Inr pushed"
    by (simp add: process_item_def detect_fileFormat_def read_spreadsheet_def load_workbook_def
          select_sheet_def truthy_string_def truthy_bool_def example_defs)
  have shown: "error_message ?lib (NodeOperationError (Text t) k) = t" for t k
    by (simp add: error_message_def example_modules_def)
  show ?thesis
    using fromFile_failure_policy[OF op len fails, of True]
          fromFile_failure_policy[OF op len fails, of False] before
    by (simp add: cont shown) blast
qed

text \<open>
  C2. The spec has every item that fails end as one error record, or as an abort with its
  index, and counts a parser error among the failures. The policy above reaches only
  what the \<open>try\<close> block throws, and a parser error on a text held in memory is not
  thrown: the stream branch listens for it (line 93), the memory branch (lines 101 to
  104) does not. A text held in memory whose third record is malformed gives the two
  rows before it and nothing else, whether the node continues on failure or not: no
  error record, and no abort.
\<close>

theorem parser_error_from_memory_not_reported:
  "execute
     ((example_modules [] no_sheets)
        \<lparr>csv_records := (\<lambda>parser_options input.
           ([Keyed [(''n'', ''1'')], Keyed [(''n'', ''2'')]], Some (Error ''Invalid Record Length'')))\<rparr>)
     (example_this ''fromFile'' ''csv'' True (example_payload ''text/csv'') [no_options]) =
   Inr [[\<lparr>json = JObject [(''n'', JString ''1'')], binary = None,
          pairedItem = Some (Single (IPairedItemData 0))\<rparr>,
         \<lparr>json = JObject [(''n'', JString ''2'')], binary = None,
          pairedItem = Some (Single (IPairedItemData 0))\<rparr>]] \<and>
   execute
     ((example_modules [] no_sheets)
        \<lparr>csv_records := (\<lambda>parser_options input.
           ([Keyed [(''n'', ''1'')], Keyed [(''n'', ''2'')]], Some (Error ''Invalid Record Length'')))\<rparr>)
     (example_this ''fromFile'' ''csv'' False (example_payload ''text/csv'') [no_options]) =
   Inr [[\<lparr>json = JObject [(''n'', JString ''1'')], binary = None,
          pairedItem = Some (Single (IPairedItemData 0))\<rparr>,
         \<lparr>json = JObject [(''n'', JString ''2'')], binary = None,
          pairedItem = Some (Single (IPairedItemData 0))\<rparr>]]"
  by code_simp

section \<open>Format detection\<close>

text \<open>
  C6. For an item whose \<open>fileFormat\<close> is \<open>autodetect\<close>: detection gives \<open>csv\<close> when the
  MIME type of its binary data is \<open>text/csv\<close>, or is \<open>text/plain\<close> with the file extension
  \<open>csv\<close>, and leaves the format as it is otherwise; it is a total function with no error
  among its values. The item then takes the CSV path in the first case and the
  spreadsheet path in the second: its result is the result of that reader, its rows
  turned into items.
\<close>

theorem autodetect_routing:
  assumes "getNodeParameter_options this i = Inr options"
    and "getNodeParameter_fileFormat this i = Inr ''autodetect''"
    and "getNodeParameter_binaryPropertyName this i = Inr name"
    and "assertBinaryData this i name = Inr binaryData"
  shows "detect_fileFormat ''autodetect'' binaryData =
           (if mimeType binaryData = ''text/csv'' \<or>
               (mimeType binaryData = ''text/plain'' \<and> fileExtension binaryData = Some ''csv'')
            then ''csv'' else ''autodetect'') \<and>
         process_item lib this i =
           (if mimeType binaryData = ''text/csv'' \<or>
               (mimeType binaryData = ''text/plain'' \<and> fileExtension binaryData = Some ''csv'')
            then map_sum id (rows_to_items options i) (read_csv lib this options binaryData)
            else map_sum id (rows_to_items options i)
                   (read_spreadsheet lib this i options binaryData))"
proof -
  have d: "detect_fileFormat ''autodetect'' binaryData =
           (if mimeType binaryData = ''text/csv'' \<or>
               (mimeType binaryData = ''text/plain'' \<and> fileExtension binaryData = Some ''csv'')
            then ''csv'' else ''autodetect'')"
    by (simp add: detect_fileFormat_def)
  show ?thesis
    unfolding process_item_read[OF assms] by (simp add: d)
qed

theorem autodetect_routing_witness:
  "process_item (example_modules [Keyed [(''a'', ''1'')]] two_sheets)
     (example_this ''fromFile'' ''autodetect'' False (example_payload ''text/csv'') [no_options]) 0 =
     Inr [\<lparr>json = JObject [(''a'', JString ''1'')], binary = None,
           pairedItem = Some (Single (IPairedItemData 0))\<rparr>] \<and>
   process_item (example_modules [Keyed [(''a'', ''1'')]] two_sheets)
     (example_this ''fromFile'' ''autodetect'' False (example_payload ''application/vnd.ms-excel'')
        [no_options]) 0 =
     Inr [\<lparr>json = JArray [JString ''a'', JString ''b''], binary = None,
           pairedItem = Some (Single (IPairedItemData 0))\<rparr>]"
proof -
  let ?lib = "example_modules [Keyed [(''a'', ''1'')]] two_sheets"
  let ?csv = "example_this ''fromFile'' ''autodetect'' False (example_payload ''text/csv'') [no_options]"
  let ?xls = "example_this ''fromFile'' ''autodetect'' False
                (example_payload ''application/vnd.ms-excel'') [no_options]"
  have c: "getNodeParameter_options ?csv 0 = Inr no_options"
      "getNodeParameter_fileFormat ?csv 0 = Inr ''autodetect''"
      "getNodeParameter_binaryPropertyName ?csv 0 = Inr ''data''"
      "assertBinaryData ?csv 0 ''data'' = Inr (example_payload ''text/csv'')"
    by (simp_all add: example_this_def)
  have x: "getNodeParameter_options ?xls 0 = Inr no_options"
      "getNodeParameter_fileFormat ?xls 0 = Inr ''autodetect''"
      "getNodeParameter_binaryPropertyName ?xls 0 = Inr ''data''"
      "assertBinaryData ?xls 0 ''data'' = Inr (example_payload ''application/vnd.ms-excel'')"
    by (simp_all add: example_this_def)
  have r1: "read_csv ?lib ?csv no_options (example_payload ''text/csv'') =
            Inr [JObject [(''a'', JString ''1'')]]"
    by code_simp
  have r2: "read_spreadsheet ?lib ?xls 0 no_options (example_payload ''application/vnd.ms-excel'') =
            Inr [JArray [JString ''a'', JString ''b'']]"
    by code_simp
  show ?thesis
    using autodetect_routing[OF c, of ?lib] autodetect_routing[OF x, of ?lib]
    by (simp add: r1 r2 rows_to_items_def) (simp add: example_payload_def no_options_def)
qed

section \<open>The spreadsheet path\<close>

text \<open>
  C4. On the spreadsheet path, when the workbook that was loaded has no sheet, the item
  fails with the error built from "Spreadsheet does not have any sheets!" (the spec's
  \<open>EmptyWorkbookError\<close>), attributed to the item, whatever the options are.
\<close>

theorem empty_workbook_fails:
  assumes "getNodeParameter_options this i = Inr options"
    and "getNodeParameter_fileFormat this i = Inr fileFormat"
    and "getNodeParameter_binaryPropertyName this i = Inr name"
    and "assertBinaryData this i name = Inr binaryData"
    and "detect_fileFormat fileFormat binaryData \<noteq> ''csv''"
    and "load_workbook lib this options binaryData = Inr workbook"
    and "SheetNames workbook = []"
  shows "process_item lib this i =
           Inl (NodeOperationError (Text ''Spreadsheet does not have any sheets!'') i)"
  unfolding process_item_read[OF assms(1-4)]
  using assms(5-7) by (simp add: read_spreadsheet_def select_sheet_def)

theorem empty_workbook_fails_witness:
  "process_item (example_modules [] no_sheets)
     (example_this ''fromFile'' ''autodetect'' False (example_payload ''application/vnd.ms-excel'')
        [no_options, no_options\<lparr>sheetName := Some ''Data'', includeEmptyCells := Some True\<rparr>]) 1 =
     Inl (NodeOperationError (Text ''Spreadsheet does not have any sheets!'') 1)"
proof -
  let ?lib = "example_modules [] no_sheets"
  let ?opts = "no_options\<lparr>sheetName := Some ''Data'', includeEmptyCells := Some True\<rparr>"
  let ?ctx = "example_this ''fromFile'' ''autodetect'' False
                (example_payload ''application/vnd.ms-excel'') [no_options, ?opts]"
  have h: "getNodeParameter_options ?ctx 1 = Inr ?opts"
      "getNodeParameter_fileFormat ?ctx 1 = Inr ''autodetect''"
      "getNodeParameter_binaryPropertyName ?ctx 1 = Inr ''data''"
      "assertBinaryData ?ctx 1 ''data'' = Inr (example_payload ''application/vnd.ms-excel'')"
    by (simp_all add: example_this_def)
  have d: "detect_fileFormat ''autodetect'' (example_payload ''application/vnd.ms-excel'') \<noteq> ''csv''"
    by (simp add: detect_fileFormat_def example_payload_def)
  have w: "load_workbook ?lib ?ctx ?opts (example_payload ''application/vnd.ms-excel'') = Inr no_sheets"
    by (simp add: load_workbook_def example_defs truthy_string_def)
  have n: "SheetNames no_sheets = []"
    by (simp add: no_sheets_def)
  show ?thesis
    by (rule empty_workbook_fails[OF h d w n])
qed






section \<open>The CSV path\<close>

lemma foldl_onRecord:
  "foldl (\<lambda>rows record. onRecord options record rows) rows records =
   rows @ map (pushed_record options) records"
  by (induction records arbitrary: rows) (simp_all add: onRecord_def)

lemma length_rows_to_items: "length (rows_to_items options i rows) = length rows"
  by (simp add: rows_to_items_def)

text \<open>
  What reading a CSV gives, by the parser's run: from memory the rows pushed, whether or
  not the parser stopped with an error; from a stream the rows pushed, or that error.
\<close>

lemma read_csv_parsed:
  assumes "parser_input this binaryData = Inr input"
    and "csv_records lib ((parser_options options)\<lparr>to := None\<rparr>) input = (records, failure)"
  shows "read_csv lib this options binaryData =
           (case stop_after (to (parser_options options)) (records, failure) of
              (found, stopped) \<Rightarrow>
                (case (input, stopped) of
                   (Piped stream, Some e) \<Rightarrow> Inl e
                 | _ \<Rightarrow> Inr (map (pushed_record options) found)))"
  using assms
  by (cases "stop_after (to (parser_options options)) (records, failure)"; cases input)
     (auto simp: read_csv_def createCSVParser_def foldl_onRecord split: option.splits)

lemma read_csv_from_memory:
  assumes "parser_input this binaryData = Inr (Written text)"
  shows "\<exists>rows. read_csv lib this options binaryData = Inr rows"
  using assms by (simp add: read_csv_def split: prod.splits)

text \<open>
  C5. On the CSV path, let the text hold the records \<open>records\<close> before its first
  malformed line, if it has one. With \<open>maxRowCount = m > -1\<close>, extraction stops after
  \<open>m\<close> rows: the rows are the first \<open>m\<close> records, each as the callback pushes it,
  so exactly \<open>m\<close> rows when the text holds that many, and all of them when it ends
  earlier. With \<open>maxRowCount = -1\<close> no cap is applied: the rows are all the records.
  Every row becomes one output item.
\<close>

theorem maxRowCount_caps_rows:
  assumes "getNodeParameter_options this i = Inr options"
    and "getNodeParameter_fileFormat this i = Inr fileFormat"
    and "getNodeParameter_binaryPropertyName this i = Inr name"
    and "assertBinaryData this i name = Inr binaryData"
    and "detect_fileFormat fileFormat binaryData = ''csv''"
    and "parser_input this binaryData = Inr input"
    and "csv_records lib ((parser_options options)\<lparr>to := None\<rparr>) input = (records, failure)"
  shows "(\<forall>m. maxRowCount options = Some m \<and> -1 < m \<and>
              (nat m \<le> length records \<or> failure = None) \<longrightarrow>
            process_item lib this i =
              Inr (rows_to_items options i
                     (map (pushed_record options) (take (nat m) records))) \<and>
            length (rows_to_items options i
                     (map (pushed_record options) (take (nat m) records))) =
              min (nat m) (length records)) \<and>
         (maxRowCount options = Some (-1) \<and> failure = None \<longrightarrow>
            process_item lib this i =
              Inr (rows_to_items options i (map (pushed_record options) records)) \<and>
            length (rows_to_items options i (map (pushed_record options) records)) =
              length records)"
proof -
  have p: "process_item lib this i =
             map_sum id (rows_to_items options i) (read_csv lib this options binaryData)"
    unfolding process_item_read[OF assms(1-4)]
    using assms(5) by simp
  note r = read_csv_parsed[OF assms(6,7)]
  have capped: "stop_after (to (parser_options options)) (records, failure) =
                  (take (nat m) records, None)"
    if "maxRowCount options = Some m" "-1 < m" "nat m \<le> length records \<or> failure = None" for m
    using that by (auto simp: parser_options_def)
  have uncapped: "stop_after (to (parser_options options)) (records, failure) = (records, None)"
    if "maxRowCount options = Some (-1)" "failure = None"
    using that by (simp add: parser_options_def)
  show ?thesis
    using capped uncapped by (auto simp: p r length_rows_to_items split: csv_input.splits)
qed

text \<open>
  A text of 100 records gives 5 items under \<open>maxRowCount = 5\<close> and 100 under
  \<open>maxRowCount = -1\<close>.
\<close>

theorem maxRowCount_caps_rows_witness:
  "(\<exists>pushed.
      process_item (example_modules (replicate 100 (Keyed [(''n'', ''1'')])) no_sheets)
        (example_this ''fromFile'' ''csv'' False (example_payload ''text/csv'')
           [no_options\<lparr>maxRowCount := Some 5\<rparr>]) 0 = Inr pushed \<and>
      length pushed = 5) \<and>
   (\<exists>pushed.
      process_item (example_modules (replicate 100 (Keyed [(''n'', ''1'')])) no_sheets)
        (example_this ''fromFile'' ''csv'' False (example_payload ''text/csv'')
           [no_options\<lparr>maxRowCount := Some (-1)\<rparr>]) 0 = Inr pushed \<and>
      length pushed = 100)"
proof -
  let ?records = "replicate 100 (Keyed [(''n'', ''1'')])"
  let ?lib = "example_modules ?records no_sheets"
  let ?bin = "example_payload ''text/csv''"
  have h: "getNodeParameter_options (example_this ''fromFile'' ''csv'' False ?bin [opts]) 0 = Inr opts"
      "getNodeParameter_fileFormat (example_this ''fromFile'' ''csv'' False ?bin [opts]) 0 = Inr ''csv''"
      "getNodeParameter_binaryPropertyName (example_this ''fromFile'' ''csv'' False ?bin [opts]) 0 =
         Inr ''data''"
      "assertBinaryData (example_this ''fromFile'' ''csv'' False ?bin [opts]) 0 ''data'' = Inr ?bin"
    for opts
    by (simp_all add: example_this_def)
  have d: "detect_fileFormat ''csv'' ?bin = ''csv''"
    by (simp add: detect_fileFormat_def)
  have src: "parser_input (example_this ''fromFile'' ''csv'' False ?bin [opts]) ?bin =
             Inr (Written ''AAAA'')" for opts
    by (simp add: parser_input_def example_payload_def truthy_string_def)
  have recs: "csv_records ?lib ((parser_options opts)\<lparr>to := None\<rparr>) (Written ''AAAA'') =
              (?records, None)" for opts
    by (simp add: example_modules_def)
  note cap = maxRowCount_caps_rows[OF h d src recs]
  show ?thesis
    using cap[of "no_options\<lparr>maxRowCount := Some 5\<rparr>"]
          cap[of "no_options\<lparr>maxRowCount := Some (-1)\<rparr>"]
    by (simp add: no_options_def)
qed

text \<open>
  C1. The spec has the rows of a CSV read with \<open>headerRow = false\<close> left as they are
  by \<open>includeEmptyCells\<close>. The callback of lines 81 to 88 does not look at the shape
  of the record: with \<open>includeEmptyCells\<close> false it sends the array through
  \<open>Object.entries\<close> and \<open>Object.fromEntries\<close> as well. The line \<open>a,,c\<close> then comes
  out as the object \<open>{"0": "a", "2": "c"}\<close>, where with \<open>includeEmptyCells\<close> true it
  comes out as the array \<open>["a", "", "c"]\<close>.
\<close>

theorem positional_row_rewritten:
  "process_item (example_modules [Positional [''a'', '''', ''c'']] no_sheets)
     (example_this ''fromFile'' ''csv'' False (example_payload ''text/csv'')
        [no_options\<lparr>headerRow := Some False, includeEmptyCells := Some False\<rparr>]) 0 =
     Inr [\<lparr>json = JObject [(''row'', JObject [(''0'', JString ''a''), (''2'', JString ''c'')])],
           binary = None, pairedItem = Some (Single (IPairedItemData 0))\<rparr>] \<and>
   process_item (example_modules [Positional [''a'', '''', ''c'']] no_sheets)
     (example_this ''fromFile'' ''csv'' False (example_payload ''text/csv'')
        [no_options\<lparr>headerRow := Some False, includeEmptyCells := Some True\<rparr>]) 0 =
     Inr [\<lparr>json = JObject [(''row'', JArray [JString ''a'', JString '''', JString ''c''])],
           binary = None, pairedItem = Some (Single (IPairedItemData 0))\<rparr>]"
  by code_simp

text \<open>
  The other half of that sentence holds: a keyed row is pushed without exactly the
  entries whose value is the empty string.
\<close>

lemma keyed_row_drops_empty_cells:
  assumes "\<not> truthy_bool (includeEmptyCells options)"
  shows "pushed_record options (Keyed properties) =
           JObject (map (\<lambda>(key, v). (key, JString v)) (filter (\<lambda>(key, v). v \<noteq> []) properties))"
  using assms by (simp add: pushed_record_def Object_fromEntries_def)

section \<open>The write direction, and the other operations\<close>



text \<open>
  C10. When the \<open>operation\<close> parameter is neither \<open>fromFile\<close> nor \<open>toFile\<close>, the
  method returns one empty list of items and throws nothing, whatever the input items,
  the other parameters and the modules are: none of them is read.
\<close>

theorem other_operation_returns_nothing:
  assumes "getNodeParameter_operation this = Inr operation"
    and "operation \<noteq> ''fromFile''"
    and "operation \<noteq> ''toFile''"
  shows "execute lib this = Inr [[]]"
  using assms by (simp add: execute_def)

theorem other_operation_returns_nothing_witness:
  "execute (example_modules [] no_sheets)
     (example_this ''convert'' ''xlsx'' False (example_payload ''text/csv'')
        [no_options, no_options]) = Inr [[]]"
proof -
  let ?ctx = "example_this ''convert'' ''xlsx'' False (example_payload ''text/csv'')
                [no_options, no_options]"
  have a: "getNodeParameter_operation ?ctx = Inr ''convert''"
    by (simp add: example_this_def)
  have b: "''convert'' \<noteq> ''fromFile''" and c: "''convert'' \<noteq> ''toFile''"
    by simp_all
  show ?thesis
    by (rule other_operation_returns_nothing[OF a b c])
qed

end
